theory Spec2Isabelle
  imports Main "HOL-Library.Sublist"
begin

section \<open>VaultFeed: the feed and article handlers of app.py\<close>

text \<open>
  The two request handlers of \<^verbatim>\<open>src/app.py\<close>, \<^verbatim>\<open>news_feed\<close> and
  \<^verbatim>\<open>fetch_article\<close>, as functions of the request and of what the libraries they
  call return. A Python string is a \<^typ>\<open>string\<close> with one \<^typ>\<open>char\<close> for each
  character (code points up to 255), so \<^const>\<open>length\<close> is Python's \<^verbatim>\<open>len\<close>.
  A call that raises is a value \<open>Inl e\<close>; only subclasses of \<^verbatim>\<open>Exception\<close> are
  modelled.
\<close>

subsection \<open>Python values and string operations\<close>

datatype py_error =
  ValueError | ImportError | AttributeError | RequestException | ArticleException | RuntimeError

text \<open>What a handler hands back to the framework: a JSON body with its status, or an
  exception that left the handler.\<close>

datatype 'a response = Ok200 'a | Err400 string | Err502 string | Unhandled py_error

text \<open>\<^verbatim>\<open>str.isspace\<close> on one character, for the code points below 256.\<close>

definition py_isspace :: "char \<Rightarrow> bool" where
  "py_isspace c = ((of_char c :: nat) \<in> set [9, 10, 11, 12, 13, 28, 29, 30, 31, 32, 133, 160])"

text \<open>\<^verbatim>\<open>s.strip()\<close>\<close>

definition strip :: "string \<Rightarrow> string" where
  "strip s = rev (dropWhile py_isspace (rev (dropWhile py_isspace s)))"

text \<open>\<^verbatim>\<open>x or ""\<close> for an \<open>x\<close> that is \<^verbatim>\<open>None\<close> or a string.\<close>

definition or_empty :: "string option \<Rightarrow> string" where
  "or_empty x = (case x of None \<Rightarrow> [] | Some s \<Rightarrow> s)"

text \<open>\<^verbatim>\<open>xs[:n]\<close> for an integer \<open>n\<close>: a negative \<open>n\<close> counts from the end.\<close>

definition slice_to :: "int \<Rightarrow> 'a list \<Rightarrow> 'a list" where
  "slice_to n xs = (if 0 \<le> n then take (nat n) xs else take (nat (int (length xs) + n)) xs)"

text \<open>\<^verbatim>\<open>d.get(k, "")\<close> on a dictionary with string values, kept as an association list.\<close>

definition dict_get :: "(string \<times> string) list \<Rightarrow> string \<Rightarrow> string" where
  "dict_get d k = (case map_of d k of None \<Rightarrow> [] | Some v \<Rightarrow> v)"

text \<open>
  \<^verbatim>\<open>int(s)\<close> on a string. The conversion skips whitespace at the two ends, but not
  the whitespace of \<^verbatim>\<open>str.strip()\<close>: it skips tab, the line and page breaks and the
  space of ASCII and the spaces beyond ASCII (here U+0085 and U+00A0), and it rejects
  the separators U+001C to U+001F. One sign is allowed; the rest is decimal digits, with
  single underscores allowed between digits, and at most 4300 digits (the interpreter's
  default cap). Anything else raises \<^verbatim>\<open>ValueError\<close>.
\<close>

definition int_isspace :: "char \<Rightarrow> bool" where
  "int_isspace c = ((of_char c :: nat) \<in> set [9, 10, 11, 12, 13, 32, 133, 160])"

definition is_digit :: "char \<Rightarrow> bool" where
  "is_digit c = (48 \<le> (of_char c :: nat) \<and> (of_char c :: nat) \<le> 57)"

fun digits_ok :: "string \<Rightarrow> bool" where
  "digits_ok [] = False"
| "digits_ok [c] = is_digit c"
| "digits_ok (c # d # r) =
     (is_digit c \<and> (if d = CHR ''_'' then digits_ok r else digits_ok (d # r)))"

definition digits_value :: "string \<Rightarrow> int" where
  "digits_value ds =
     foldl (\<lambda>acc c. if c = CHR ''_'' then acc else 10 * acc + (int (of_char c) - 48)) 0 ds"

definition max_str_digits :: nat where
  "max_str_digits = 4300"

definition digits_int :: "string \<Rightarrow> py_error + int" where
  "digits_int ds =
     (if digits_ok ds \<and> length (filter is_digit ds) \<le> max_str_digits
      then Inr (digits_value ds) else Inl ValueError)"

definition py_int :: "string \<Rightarrow> py_error + int" where
  "py_int s =
     (case rev (dropWhile int_isspace (rev (dropWhile int_isspace s))) of
        [] \<Rightarrow> Inl ValueError
      | c # r \<Rightarrow>
          if c = CHR ''-'' then
            (case digits_int r of Inl e \<Rightarrow> Inl e | Inr v \<Rightarrow> Inr (- v))
          else if c = CHR ''+'' then digits_int r
          else digits_int (c # r))"

subsection \<open>The feed handler\<close>

text \<open>
  An entry of the parsed feed, as the handler reads it. \<open>None\<close> is an attribute that
  \<^verbatim>\<open>hasattr\<close> does not find (for the timestamps: absent or \<^verbatim>\<open>None\<close>); for
  \<open>summary\<close> and \<open>description\<close> the inner option is a value that is \<^verbatim>\<open>None\<close>.
  \<open>content\<close>, \<open>media_thumbnail\<close> and \<open>media_content\<close> are lists of dictionaries.
\<close>

record entry =
  e_title :: "string option"
  e_link :: "string option"
  e_published :: "string option"
  e_updated :: "string option"
  e_created :: "string option"
  e_content :: "(string \<times> string) list list option"
  e_summary :: "string option option"
  e_description :: "string option option"
  e_media_thumbnail :: "(string \<times> string) list list option"
  e_media_content :: "(string \<times> string) list list option"
  e_author :: "string option"

text \<open>The result of \<^verbatim>\<open>feedparser.parse\<close>; \<open>bozo_exception\<close> is its \<^verbatim>\<open>str()\<close> when
  the attribute exists.\<close>

record parsed_feed =
  bozo :: bool
  bozo_exception :: "string option"
  entries :: "entry list"
  p_feed_title :: "string option"

record feed_item =
  i_title :: string
  i_link :: string
  i_published :: string
  i_description :: string
  i_thumbnail :: string
  i_author :: string

record feed_result =
  items :: "feed_item list"
  feed_title :: string

text \<open>The query string of a feed request; \<open>None\<close> is a parameter that is not there.\<close>

record feed_request =
  q_url :: "string option"
  q_limit :: "string option"

text \<open>
  What the handler reads from outside: the variable \<^verbatim>\<open>NEWS_RSS_URL\<close> and the outcome
  of \<^verbatim>\<open>feedparser.parse\<close> on a URL, which is a parsed feed or an exception with its
  \<^verbatim>\<open>str()\<close>.
\<close>

record feed_world =
  news_rss_url :: "string option"
  feedparser_parse :: "string \<Rightarrow> (py_error \<times> string) + parsed_feed"

text \<open>Lines 26 to 28.\<close>

definition feed_url_of :: "feed_request \<Rightarrow> feed_world \<Rightarrow> string" where
  "feed_url_of req w =
     (let fallback = (case news_rss_url w of None \<Rightarrow> ''https://hnrss.org/frontpage'' | Some u \<Rightarrow> u)
      in case q_url req of
           None \<Rightarrow> fallback
         | Some u \<Rightarrow> if u = [] then fallback else u)"

text \<open>Line 29: \<^verbatim>\<open>min(int(request.args.get("limit", 20)), 50)\<close>.\<close>

definition limit_of :: "feed_request \<Rightarrow> py_error + int" where
  "limit_of req =
     (case q_limit req of
        None \<Rightarrow> Inr (min 20 50)
      | Some s \<Rightarrow> (case py_int s of Inl e \<Rightarrow> Inl e | Inr n \<Rightarrow> Inr (min n 50)))"

text \<open>Lines 51 to 56: the first of the three timestamps that is not empty.\<close>

fun first_truthy :: "string option list \<Rightarrow> string" where
  "first_truthy [] = []"
| "first_truthy (None # vs) = first_truthy vs"
| "first_truthy (Some v # vs) = (if v = [] then first_truthy vs else v)"

text \<open>Lines 59 to 65.\<close>

definition description_of :: "entry \<Rightarrow> string" where
  "description_of e =
     (case e_content e of
        Some (d # ds) \<Rightarrow> take 2000 (dict_get d ''value'')
      | _ \<Rightarrow>
        (case e_summary e of
           Some s \<Rightarrow> take 2000 (or_empty s)
         | None \<Rightarrow>
           (case e_description e of
              Some s \<Rightarrow> take 2000 (or_empty s)
            | None \<Rightarrow> [])))"

text \<open>Lines 68 to 72.\<close>

definition thumbnail_of :: "entry \<Rightarrow> string" where
  "thumbnail_of e =
     (case e_media_thumbnail e of
        Some (d # ds) \<Rightarrow> dict_get d ''url''
      | _ \<Rightarrow>
        (case e_media_content e of
           Some (d # ds) \<Rightarrow> dict_get d ''url''
         | _ \<Rightarrow> []))"

text \<open>The body of the loop of line 46: one entry to one item.\<close>

definition item_of :: "entry \<Rightarrow> feed_item" where
  "item_of e =
     \<lparr> i_title = (case e_title e of None \<Rightarrow> ''(no title)'' | Some t \<Rightarrow> t),
       i_link = or_empty (e_link e),
       i_published = first_truthy [e_published e, e_updated e, e_created e],
       i_description = description_of e,
       i_thumbnail = thumbnail_of e,
       i_author = or_empty (e_author e) \<rparr>"

definition news_feed :: "feed_request \<Rightarrow> feed_world \<Rightarrow> feed_result response" where
  "news_feed req w =
     (let feed_url = feed_url_of req w in
      case limit_of req of
        Inl e \<Rightarrow> Unhandled e
      | Inr limit \<Rightarrow>
          (case feedparser_parse w feed_url of
             Inl (e, msg) \<Rightarrow> Err502 msg
           | Inr parsed \<Rightarrow>
               if bozo parsed \<and> entries parsed = [] then
                 Err502 (''Feed error: '' @
                   (case bozo_exception parsed of None \<Rightarrow> ''Unknown parse error'' | Some m \<Rightarrow> m))
               else
                 Ok200 \<lparr> items = map item_of (slice_to limit (entries parsed)),
                         feed_title = or_empty (p_feed_title parsed) \<rparr>))"

text \<open>The number of items of a 200 response, for reading off a response.\<close>

definition item_count :: "feed_result response \<Rightarrow> nat option" where
  "item_count r = (case r of Ok200 b \<Rightarrow> Some (length (items b)) | _ \<Rightarrow> None)"

subsection \<open>The description the specification asks for\<close>

text \<open>
  The three sources of a description in the specification's order of precedence, each
  present or not: the rich content body (the \<open>value\<close> of the first content element, when
  the entry has a content list that is not empty), the summary and the description (when
  the entry has the attribute). The specification takes the first present one and cuts
  it to 2000 characters.
\<close>

definition content_body :: "entry \<Rightarrow> string option" where
  "content_body e =
     (case e_content e of None \<Rightarrow> None | Some [] \<Rightarrow> None | Some (d # ds) \<Rightarrow> Some (dict_get d ''value''))"

definition description_sources :: "entry \<Rightarrow> string option list" where
  "description_sources e =
     [content_body e, map_option or_empty (e_summary e), map_option or_empty (e_description e)]"

fun first_present :: "string option list \<Rightarrow> string option" where
  "first_present [] = None"
| "first_present (None # vs) = first_present vs"
| "first_present (Some v # vs) = Some v"

definition spec_description :: "entry \<Rightarrow> string" where
  "spec_description e = take 2000 (or_empty (first_present (description_sources e)))"





subsection \<open>The article handler\<close>

text \<open>
  The attributes of newspaper's \<^verbatim>\<open>Article\<close> after \<^verbatim>\<open>parse()\<close>, as lines 128 to 132
  read them; \<open>None\<close> is a value that is \<^verbatim>\<open>None\<close> (or falsy). A publish date that is
  there is a \<^verbatim>\<open>datetime\<close>: \<open>Inr d\<close> when its \<^verbatim>\<open>isoformat()\<close> returns \<open>d\<close>,
  \<open>Inl e\<close> when the call raises (as it does for a time zone whose offset is a day or
  more).
\<close>

record article =
  a_text :: "string option"
  a_title :: "string option"
  a_authors :: "string list option"
  a_publish_date :: "(py_error + string) option"
  a_top_image :: "string option"

text \<open>
  What lines 141 to 154 produce when none of them raises: the short title of the
  readability document, and of the cleaned soup its \<^verbatim>\<open>get_text(separator="\n\n")\<close>, its
  \<^verbatim>\<open>str()\<close> and its \<^verbatim>\<open>img\<close> elements in document order, each with its \<^verbatim>\<open>src\<close>
  attribute when it has one.
\<close>

record readable =
  r_short_title :: "string option"
  r_get_text :: string
  r_str :: string
  r_imgs :: "string option list"

text \<open>
  What the handler gets from outside for a URL: lines 124 to 126 (the download and the
  parse) raise or leave a parsed article; lines 141 to 154 (the imports, the second
  download, readability and the soup) raise or leave the cleaned fragment.
\<close>

record article_world =
  primary_run :: "string \<Rightarrow> py_error + article"
  fallback_run :: "string \<Rightarrow> py_error + readable"

record article_request =
  url_arg :: "string option"

record article_result =
  res_title :: string
  res_authors :: "string list"
  res_publish_date :: string
  res_top_image :: string
  res_text :: string
  res_html :: string
  res_source_url :: string

datatype strategy = Primary | Fallback

text \<open>
  The local variables of lines 115 to 120. \<open>v_ran\<close> is not in the source: it records
  which of the two \<^verbatim>\<open>try\<close> blocks were entered, in order.
\<close>

record extraction =
  v_text :: string
  v_html_content :: string
  v_title :: string
  v_authors :: "string list"
  v_publish_date :: string
  v_top_image :: string
  v_ran :: "strategy list"

definition initial :: extraction where
  "initial = \<lparr> v_text = [], v_html_content = [], v_title = [], v_authors = [],
               v_publish_date = [], v_top_image = [], v_ran = [] \<rparr>"

text \<open>
  The body of the first \<^verbatim>\<open>try\<close> (lines 124 to 132), statement by statement: the
  exception that ended it, if any, and the variables as they are at that moment.
\<close>

definition attempt1 :: "string \<Rightarrow> article_world \<Rightarrow> extraction \<Rightarrow> py_error option \<times> extraction" where
  "attempt1 url w s0 =
     (let s = s0\<lparr>v_ran := v_ran s0 @ [Primary]\<rparr> in
      case primary_run w url of
        Inl e \<Rightarrow> (Some e, s)
      | Inr a \<Rightarrow>
          (let s1 = s\<lparr>v_text := strip (or_empty (a_text a))\<rparr>;
               s2 = s1\<lparr>v_title := or_empty (a_title a)\<rparr>;
               s3 = s2\<lparr>v_authors := (case a_authors a of None \<Rightarrow> [] | Some xs \<Rightarrow> xs)\<rparr>
           in case a_publish_date a of
                None \<Rightarrow>
                  (None, s3\<lparr>v_publish_date := [], v_top_image := or_empty (a_top_image a)\<rparr>)
              | Some (Inl e) \<Rightarrow> (Some e, s3)
              | Some (Inr stamp) \<Rightarrow>
                  (None, s3\<lparr>v_publish_date := stamp, v_top_image := or_empty (a_top_image a)\<rparr>)))"

text \<open>Lines 133 to 136: both handlers are \<^verbatim>\<open>pass\<close>, and the second takes every
  exception the first does not.\<close>

definition except1 :: "py_error option \<times> extraction \<Rightarrow> py_error + extraction" where
  "except1 r =
     (case r of
        (None, s) \<Rightarrow> Inr s
      | (Some e, s) \<Rightarrow>
          if e = ArticleException \<or> e = RequestException then Inr s else Inr s)"

text \<open>\<^verbatim>\<open>soup.find("img", src=True)\<close>: the first \<^verbatim>\<open>img\<close> that has a \<^verbatim>\<open>src\<close>.\<close>

fun find_img_src :: "string option list \<Rightarrow> string option" where
  "find_img_src [] = None"
| "find_img_src (None # imgs) = find_img_src imgs"
| "find_img_src (Some src # imgs) = Some src"

text \<open>The body of the second \<^verbatim>\<open>try\<close> (lines 141 to 167).\<close>

definition attempt2 :: "string \<Rightarrow> article_world \<Rightarrow> extraction \<Rightarrow> py_error option \<times> extraction" where
  "attempt2 url w s0 =
     (let s = s0\<lparr>v_ran := v_ran s0 @ [Fallback]\<rparr> in
      case fallback_run w url of
        Inl e \<Rightarrow> (Some e, s)
      | Inr r \<Rightarrow>
          (let fallback_text = strip (r_get_text r) in
           if length fallback_text > length (v_text s) then
             (let s1 = s\<lparr>v_text := fallback_text, v_html_content := r_str r\<rparr>;
                  s2 = (if v_title s1 = [] then s1\<lparr>v_title := or_empty (r_short_title r)\<rparr> else s1);
                  s3 = (if v_top_image s2 = [] then
                          (case find_img_src (r_imgs r) of
                             None \<Rightarrow> s2
                           | Some src \<Rightarrow> if prefix ''http'' src then s2\<lparr>v_top_image := src\<rparr> else s2)
                        else s2)
              in (None, s3))
           else (None, s)))"

text \<open>Lines 168 to 171: again two handlers that are \<^verbatim>\<open>pass\<close>.\<close>

definition except2 :: "py_error option \<times> extraction \<Rightarrow> py_error + extraction" where
  "except2 r =
     (case r of
        (None, s) \<Rightarrow> Inr s
      | (Some e, s) \<Rightarrow> if e = ImportError then Inr s else Inr s)"

text \<open>\<^verbatim>\<open>s.split(sep)\<close> for a separator that is not empty: the pieces between the
  occurrences of \<open>sep\<close>, found from the left.\<close>

function split_from :: "string \<Rightarrow> string \<Rightarrow> string \<Rightarrow> string list" where
  "split_from sep cur [] = [rev cur]"
| "split_from sep cur (c # cs) =
     (if sep \<noteq> [] \<and> prefix sep (c # cs)
      then rev cur # split_from sep [] (drop (length sep) (c # cs))
      else split_from sep (c # cur) cs)"
  by pat_completeness auto
termination
  by (relation "measure (\<lambda>(sep, cur, s). length s)") auto

definition py_split :: "string \<Rightarrow> string \<Rightarrow> string list" where
  "py_split s sep = split_from sep [] s"

definition blank_line :: string where
  "blank_line = [CHR 0x0A, CHR 0x0A]"

text \<open>Lines 174 to 176.\<close>

definition build_html :: "extraction \<Rightarrow> extraction" where
  "build_html s =
     (if v_text s \<noteq> [] \<and> v_html_content s = [] then
        (let paragraphs = map strip (filter (\<lambda>p. strip p \<noteq> []) (py_split (v_text s) blank_line))
         in s\<lparr>v_html_content :=
                (if paragraphs \<noteq> [] then concat (map (\<lambda>p. ''<p>'' @ p @ ''</p>'') paragraphs)
                 else [])\<rparr>)
      else s)"

text \<open>The handler up to line 136, up to line 171 and up to line 176. An exception that
  a \<^verbatim>\<open>try\<close> statement lets through ends the handler. The import of line 101 is
  taken to succeed: newspaper is installed.\<close>

definition after_primary :: "string \<Rightarrow> article_world \<Rightarrow> py_error + extraction" where
  "after_primary url w = except1 (attempt1 url w initial)"

definition after_fallback :: "string \<Rightarrow> article_world \<Rightarrow> py_error + extraction" where
  "after_fallback url w =
     (case after_primary url w of
        Inl e \<Rightarrow> Inl e
      | Inr s \<Rightarrow> if length (v_text s) < 100 then except2 (attempt2 url w s) else Inr s)"

definition after_build :: "string \<Rightarrow> article_world \<Rightarrow> py_error + extraction" where
  "after_build url w = (case after_fallback url w of Inl e \<Rightarrow> Inl e | Inr s \<Rightarrow> Inr (build_html s))"

definition fetch_article :: "article_request \<Rightarrow> article_world \<Rightarrow> article_result response" where
  "fetch_article req w =
     (let url = strip (case url_arg req of None \<Rightarrow> [] | Some u \<Rightarrow> u) in
      if url = [] then Err400 ''url parameter is required''
      else
        (case after_build url w of
           Inl e \<Rightarrow> Unhandled e
         | Inr s \<Rightarrow>
             Ok200 \<lparr> res_title = v_title s, res_authors = v_authors s,
                     res_publish_date = v_publish_date s, res_top_image = v_top_image s,
                     res_text = v_text s, res_html = v_html_content s,
                     res_source_url = url \<rparr>))"

text \<open>The body of a 200 response, for reading off a response.\<close>

definition body_of :: "'a response \<Rightarrow> 'a option" where
  "body_of r = (case r of Ok200 b \<Rightarrow> Some b | _ \<Rightarrow> None)"

subsection \<open>What the specification's sentences describe\<close>

text \<open>The sources of the image elements that have one, in document order.\<close>

fun img_sources :: "string option list \<Rightarrow> string list" where
  "img_sources [] = []"
| "img_sources (None # imgs) = img_sources imgs"
| "img_sources (Some src # imgs) = src # img_sources imgs"

text \<open>The lead image as the specification words it: the source of the first image
  element whose source begins with \<open>http\<close>, and no image when there is none.\<close>

definition spec_first_http_src :: "string option list \<Rightarrow> string" where
  "spec_first_http_src imgs =
     (case filter (prefix ''http'') (img_sources imgs) of
        [] \<Rightarrow> []
      | src # rest \<Rightarrow> src)"

text \<open>The synthesized markup as the specification words it: the segments between blank
  lines, without those that are empty or only whitespace, each wrapped as it is.\<close>

definition spec_paragraph_html :: "string \<Rightarrow> string" where
  "spec_paragraph_html t =
     concat (map (\<lambda>p. ''<p>'' @ p @ ''</p>'')
       (filter (\<lambda>p. \<not> list_all py_isspace p) (py_split t blank_line)))"

subsection \<open>Concrete requests and library outcomes\<close>

definition blank_entry :: entry where
  "blank_entry = \<lparr> e_title = None, e_link = None, e_published = None, e_updated = None,
     e_created = None, e_content = None, e_summary = None, e_description = None,
     e_media_thumbnail = None, e_media_content = None, e_author = None \<rparr>"

text \<open>A feed of \<open>k\<close> entries, well-formed or not, whatever the URL.\<close>

definition feed_of_size :: "bool \<Rightarrow> nat \<Rightarrow> feed_world" where
  "feed_of_size bz k =
     \<lparr> news_rss_url = None,
       feedparser_parse = (\<lambda>u. Inr \<lparr> bozo = bz, bozo_exception = Some ''not well-formed'',
                                     entries = replicate k blank_entry, p_feed_title = None \<rparr>) \<rparr>"




definition long_entry :: entry where
  "long_entry = blank_entry \<lparr> e_content := Some [[(''value'', replicate 2001 (CHR ''x''))]],
                              e_summary := Some (Some ''short'') \<rparr>"

definition article_of :: "string \<Rightarrow> (py_error + string) option \<Rightarrow> article" where
  "article_of t d = \<lparr> a_text = Some t, a_title = Some ''Title'', a_authors = Some [''Ann''],
                      a_publish_date = d, a_top_image = Some ''http://example.org/top.png'' \<rparr>"

definition readable_of :: "string \<Rightarrow> string option list \<Rightarrow> readable" where
  "readable_of t imgs = \<lparr> r_short_title = Some ''Short'', r_get_text = t,
                          r_str = ''<div>'' @ t @ ''</div>'', r_imgs = imgs \<rparr>"

definition both_fail :: article_world where
  "both_fail = \<lparr> primary_run = (\<lambda>u. Inl RequestException),
                  fallback_run = (\<lambda>u. Inl RequestException) \<rparr>"

definition two_images :: "string option list" where
  "two_images = [Some ''/logo.png'', Some ''http://example.org/pic.png'']"

definition fallback_only :: "string option list \<Rightarrow> article_world" where
  "fallback_only imgs = \<lparr> primary_run = (\<lambda>u. Inl RequestException),
                          fallback_run = (\<lambda>u. Inr (readable_of ''Body text'' imgs)) \<rparr>"

definition same_text :: article_world where
  "same_text = \<lparr> primary_run = (\<lambda>u. Inr (article_of ''Hello'' None)),
                  fallback_run = (\<lambda>u. Inr (readable_of ''Hello'' [])) \<rparr>"

definition shorter_fallback :: article_world where
  "shorter_fallback = \<lparr> primary_run = (\<lambda>u. Inr (article_of ''Hello'' None)),
                         fallback_run = (\<lambda>u. Inr (readable_of ''Hi'' [])) \<rparr>"

definition bad_date :: article_world where
  "bad_date = \<lparr> primary_run = (\<lambda>u. Inr (article_of ''Body'' (Some (Inl ValueError)))),
                 fallback_run = (\<lambda>u. Inl RequestException) \<rparr>"

definition three_newlines :: string where
  "three_newlines = [CHR ''a'', CHR 0x0A, CHR 0x0A, CHR 0x0A, CHR ''b'']"

definition primary_only :: "string \<Rightarrow> article_world" where
  "primary_only t = \<lparr> primary_run = (\<lambda>u. Inr (article_of t None)),
                      fallback_run = (\<lambda>u. Inl RequestException) \<rparr>"

definition page :: article_request where
  "page = \<lparr> url_arg = Some '' http://example.org/a '' \<rparr>"

section \<open>Facts about the string operations\<close>

lemma strip_Nil_iff: "strip p = [] \<longleftrightarrow> (\<forall>c\<in>set p. py_isspace c)"
proof
  assume a: "strip p = []"
  then have b: "\<forall>c\<in>set (dropWhile py_isspace p). py_isspace c"
    by (simp add: strip_def)
  have "dropWhile py_isspace p = []"
  proof (rule ccontr)
    assume n: "dropWhile py_isspace p \<noteq> []"
    then have "\<not> py_isspace (hd (dropWhile py_isspace p))" by (rule hd_dropWhile)
    moreover have "hd (dropWhile py_isspace p) \<in> set (dropWhile py_isspace p)" using n by simp
    ultimately show False using b by blast
  qed
  then show "\<forall>c\<in>set p. py_isspace c" by simp
next
  assume "\<forall>c\<in>set p. py_isspace c"
  then show "strip p = []" by (auto simp: strip_def dest: set_dropWhileD)
qed

lemma slice_to_all: "int (length xs) \<le> n \<Longrightarrow> slice_to n xs = xs"
  by (simp add: slice_to_def)

lemma find_img_src_sources:
  "find_img_src imgs = (case img_sources imgs of [] \<Rightarrow> None | src # rest \<Rightarrow> Some src)"
  by (induction imgs rule: find_img_src.induct) simp_all

section \<open>The feed items are the items of the specification\<close>





section \<open>The try statements let nothing through\<close>

lemma except1_Inr: "except1 r = Inr (snd r)"
  by (cases r) (simp add: except1_def split: option.splits)

lemma except2_Inr: "except2 r = Inr (snd r)"
  by (cases r) (simp add: except2_def split: option.splits)

lemma after_primary_Inr: "after_primary url w = Inr (snd (attempt1 url w initial))"
  by (simp add: after_primary_def except1_Inr)

lemma after_fallback_Inr:
  "after_fallback url w =
     Inr (if length (v_text (snd (attempt1 url w initial))) < 100
          then snd (attempt2 url w (snd (attempt1 url w initial)))
          else snd (attempt1 url w initial))"
  by (simp add: after_fallback_def after_primary_Inr except2_Inr)

lemma after_build_Inr:
  "after_build url w =
     Inr (build_html (if length (v_text (snd (attempt1 url w initial))) < 100
          then snd (attempt2 url w (snd (attempt1 url w initial)))
          else snd (attempt1 url w initial)))"
  by (simp add: after_build_def after_fallback_Inr)

lemma fetch_article_ok:
  assumes "strip (or_empty (url_arg req)) = url" and "url \<noteq> []"
    and "after_build url w = Inr s"
  shows "fetch_article req w =
     Ok200 \<lparr> res_title = v_title s, res_authors = v_authors s,
             res_publish_date = v_publish_date s, res_top_image = v_top_image s,
             res_text = v_text s, res_html = v_html_content s, res_source_url = url \<rparr>"
  using assms by (simp add: fetch_article_def or_empty_def Let_def)

lemma build_html_text: "v_text (build_html s) = v_text s"
  by (simp add: build_html_def Let_def)

lemma build_html_top_image: "v_top_image (build_html s) = v_top_image s"
  by (simp add: build_html_def Let_def)

lemma attempt1_html: "v_html_content (snd (attempt1 url w initial)) = []"
  by (simp add: attempt1_def initial_def Let_def split: sum.splits option.splits)

lemma attempt2_html:
  assumes "v_html_content s = []" and "v_text (snd (attempt2 url w s)) = []"
  shows "v_html_content (snd (attempt2 url w s)) = []"
  using assms by (auto simp add: attempt2_def Let_def split: sum.splits option.splits if_splits)

lemma after_build_total: "\<exists>s. after_build url w = Inr s"
  by (simp add: after_build_Inr)

lemma after_build_fallback:
  "after_fallback url w = Inr s \<Longrightarrow> after_build url w = Inr (build_html s)"
  by (simp add: after_build_def)

lemma after_fallback_cases:
  assumes "after_primary url w = Inr s"
  shows "after_fallback url w =
           Inr (if length (v_text s) < 100 then snd (attempt2 url w s) else s)"
  using assms by (simp add: after_fallback_def except2_Inr)

section \<open>Evaluating the handlers on concrete requests\<close>

lemmas article_run = fetch_article_def after_build_def after_fallback_def after_primary_def
  except1_def except2_def attempt1_def attempt2_def build_html_def initial_def
  body_of_def strip_def py_isspace_def or_empty_def

lemmas int_run = py_int_def digits_int_def int_isspace_def is_digit_def digits_value_def
  max_str_digits_def


lemma page_url: "strip (or_empty (url_arg page)) = ''http://example.org/a''"
  by (simp add: page_def or_empty_def strip_def py_isspace_def)

section \<open>The claims\<close>

text \<open>
  C1. A limit above 50 gives at most 50 items, and an absent limit or one that is at
  most 0 gives at most 20. The code breaks this for a negative limit: line 46 slices
  \<^verbatim>\<open>parsed.entries[:limit]\<close>, and a negative bound drops entries from the end
  instead of bounding the count. With \<^verbatim>\<open>limit=-1\<close> and a feed of 52 entries the
  response has 51 items, more than the 20 of the claim and more than the maximum of
  50 that the handler's docstring gives.
\<close>

theorem negative_limit_item_count:
  "item_count (news_feed \<lparr> q_url = None, q_limit = Some ''-1'' \<rparr> (feed_of_size False 52)) = Some 51"
  by (simp add: news_feed_def limit_of_def int_run slice_to_def feed_url_of_def
      feed_of_size_def item_count_def)

text \<open>The parts of that sentence that the code keeps: a limit above 50 and an absent
  limit.\<close>

lemma limit_above_50:
  assumes "py_int s = Inr n" and "50 < n"
  shows "item_count (news_feed (req\<lparr>q_limit := Some s\<rparr>) w) \<noteq> None \<longrightarrow>
         (\<exists>k. item_count (news_feed (req\<lparr>q_limit := Some s\<rparr>) w) = Some k \<and> k \<le> 50)"
  using assms
  by (auto simp add: news_feed_def limit_of_def item_count_def slice_to_def Let_def
      split: sum.splits prod.splits if_splits)

lemma limit_absent:
  "item_count (news_feed (req\<lparr>q_limit := None\<rparr>) w) \<noteq> None \<longrightarrow>
   (\<exists>k. item_count (news_feed (req\<lparr>q_limit := None\<rparr>) w) = Some k \<and> k \<le> 20)"
  by (auto simp add: news_feed_def limit_of_def item_count_def slice_to_def Let_def
      split: sum.splits prod.splits if_splits)

text \<open>
  C10. A limit that is not a decimal integer, such as \<open>abc\<close>, makes the conversion of
  line 29 raise before anything is clamped or fetched; nothing catches it, so the
  handler returns neither a 200 nor a 502 response, whatever the URL and the feed.
\<close>

theorem limit_abc_unhandled:
  "py_int ''abc'' = Inl ValueError \<and>
   news_feed \<lparr> q_url = u, q_limit = Some ''abc'' \<rparr> w = Unhandled ValueError"
  by (simp add: news_feed_def limit_of_def int_run)

theorem limit_abc_unhandled_witness:
  "news_feed \<lparr> q_url = None, q_limit = Some ''abc'' \<rparr> (feed_of_size False 3) = Unhandled ValueError"
  using limit_abc_unhandled [of None "feed_of_size False 3"] by simp

text \<open>
  C7. The description of an item is the first 2000 characters of the first present
  source, in the order content body, summary, description, and empty when none is
  present; a chosen source of more than 2000 characters gives exactly its first 2000.
\<close>

theorem description_first_present:
  "i_description (item_of e) = spec_description e \<and>
   (\<forall>src. first_present (description_sources e) = Some src \<and> 2000 < length src \<longrightarrow>
      i_description (item_of e) = take 2000 src \<and> length (i_description (item_of e)) = 2000) \<and>
   (first_present (description_sources e) = None \<longrightarrow> i_description (item_of e) = [])"
proof -
  have eq: "description_of e = spec_description e"
    by (simp add: description_of_def spec_description_def description_sources_def
        content_body_def or_empty_def split: option.splits list.splits)
  then have i: "i_description (item_of e) = spec_description e"
    by (simp add: item_of_def)
  show ?thesis
    using i by (auto simp add: spec_description_def or_empty_def)
qed

theorem description_first_present_witness:
  "first_present (description_sources long_entry) = Some (replicate 2001 (CHR ''x'')) \<and>
   i_description (item_of long_entry) = replicate 2000 (CHR ''x'')"
proof -
  have s: "first_present (description_sources long_entry) = Some (replicate 2001 (CHR ''x''))"
    by (simp add: description_sources_def content_body_def long_entry_def blank_entry_def dict_get_def)
  note t = description_first_present [of long_entry, THEN conjunct2, THEN conjunct1, rule_format,
      of "replicate 2001 (CHR ''x'')"]
  have "i_description (item_of long_entry) = take 2000 (replicate 2001 (CHR ''x''))"
    using t s by simp
  then show ?thesis using s by simp
qed




text \<open>
  C5. The article handler answers 400 with the message \<open>url parameter is required\<close>
  exactly when the \<open>url\<close> parameter is absent or empty after trimming; for every other
  request it answers 200 with the seven fields, which are all empty (but for the echoed
  URL) when both strategies fail.
\<close>

theorem url_required_else_ok:
  "(fetch_article req w = Err400 ''url parameter is required'' \<longleftrightarrow>
      strip (or_empty (url_arg req)) = []) \<and>
   (strip (or_empty (url_arg req)) \<noteq> [] \<longrightarrow> (\<exists>r. fetch_article req w = Ok200 r)) \<and>
   (strip (or_empty (url_arg req)) \<noteq> [] \<and>
    primary_run w (strip (or_empty (url_arg req))) = Inl e1 \<and>
    fallback_run w (strip (or_empty (url_arg req))) = Inl e2 \<longrightarrow>
      fetch_article req w =
        Ok200 \<lparr> res_title = [], res_authors = [], res_publish_date = [], res_top_image = [],
                res_text = [], res_html = [],
                res_source_url = strip (or_empty (url_arg req)) \<rparr>)"
proof -
  let ?url = "strip (or_empty (url_arg req))"
  have a: "?url = [] \<Longrightarrow> fetch_article req w = Err400 ''url parameter is required''"
    by (simp add: fetch_article_def or_empty_def)
  have b: "?url \<noteq> [] \<Longrightarrow> \<exists>r. fetch_article req w = Ok200 r"
    using fetch_article_ok [OF refl _ after_build_Inr, of req w] by blast
  have c: "fetch_article req w =
        Ok200 \<lparr> res_title = [], res_authors = [], res_publish_date = [], res_top_image = [],
                res_text = [], res_html = [], res_source_url = ?url \<rparr>"
    if "?url \<noteq> []" "primary_run w ?url = Inl e1" "fallback_run w ?url = Inl e2"
    using that fetch_article_ok [OF refl _ after_build_Inr, of req w]
    by (simp add: attempt1_def attempt2_def build_html_def initial_def)
  have d: "fetch_article req w = Err400 ''url parameter is required'' \<longleftrightarrow> ?url = []"
  proof (cases "?url = []")
    case True
    then show ?thesis using a by simp
  next
    case False
    then obtain r where "fetch_article req w = Ok200 r" using b by blast
    then show ?thesis using False by simp
  qed
  show ?thesis using d b c by blast
qed

theorem url_required_else_ok_witness:
  "fetch_article \<lparr> url_arg = Some ''   '' \<rparr> both_fail = Err400 ''url parameter is required'' \<and>
   fetch_article page both_fail =
     Ok200 \<lparr> res_title = [], res_authors = [], res_publish_date = [], res_top_image = [],
             res_text = [], res_html = [], res_source_url = ''http://example.org/a'' \<rparr>"
proof -
  have u: "strip (or_empty (url_arg page)) = ''http://example.org/a''"
    by (simp add: page_def or_empty_def strip_def py_isspace_def)
  have v: "strip (or_empty (url_arg \<lparr> url_arg = Some ''   '' \<rparr>)) = []"
    by (simp add: or_empty_def strip_def py_isspace_def)
  have a: "fetch_article \<lparr> url_arg = Some ''   '' \<rparr> both_fail = Err400 ''url parameter is required''"
    using url_required_else_ok [of "\<lparr> url_arg = Some ''   '' \<rparr>" both_fail] v by simp
  have b: "fetch_article page both_fail =
     Ok200 \<lparr> res_title = [], res_authors = [], res_publish_date = [], res_top_image = [],
             res_text = [], res_html = [], res_source_url = ''http://example.org/a'' \<rparr>"
    using url_required_else_ok [of page both_fail RequestException RequestException] u
    by (simp add: both_fail_def)
  show ?thesis using a b by simp
qed

text \<open>
  C9 as it is written fails: a URL supplied with a space on each side comes back without
  them, since line 103 trims the parameter before anything else uses it.
\<close>

theorem source_url_not_echoed:
  "url_arg page = Some '' http://example.org/a '' \<and>
   map_option res_source_url (body_of (fetch_article page both_fail)) = Some ''http://example.org/a''"
  by (simp add: page_def fetch_article_def after_build_def after_fallback_def after_primary_def
      except1_def except2_def attempt1_def attempt2_def build_html_def initial_def
      both_fail_def body_of_def strip_def py_isspace_def)

text \<open>
  C9, amended. For every article request that is not rejected with the 400 error, the
  \<open>source_url\<close> of the result is the \<open>url\<close> parameter with the whitespace at its two
  ends removed; it is the parameter itself when there is none to remove.
\<close>

theorem source_url_is_stripped_url:
  assumes "fetch_article req w \<noteq> Err400 ''url parameter is required''"
  shows "\<exists>u r. url_arg req = Some u \<and> fetch_article req w = Ok200 r \<and>
               res_source_url r = strip u \<and> (strip u = u \<longrightarrow> res_source_url r = u)"
proof -
  have n: "strip (or_empty (url_arg req)) \<noteq> []"
    using assms by (auto simp add: fetch_article_def or_empty_def)
  then obtain u where u: "url_arg req = Some u"
    by (cases "url_arg req") (simp_all add: or_empty_def strip_def)
  obtain s where s: "after_build (strip u) w = Inr s"
    using after_build_total by blast
  have "strip (or_empty (url_arg req)) = strip u"
    using u by (simp add: or_empty_def)
  then have "\<exists>r. fetch_article req w = Ok200 r \<and> res_source_url r = strip u"
    using fetch_article_ok [OF _ _ s, of req] n by simp
  then show ?thesis using u by auto
qed

theorem source_url_is_stripped_url_witness:
  "\<exists>r. fetch_article page both_fail = Ok200 r \<and> res_source_url r = ''http://example.org/a''"
proof -
  have a: "fetch_article page both_fail \<noteq> Err400 ''url parameter is required''"
    by (simp add: article_run page_def both_fail_def)
  have b: "strip '' http://example.org/a '' = ''http://example.org/a''"
    by (simp add: strip_def py_isspace_def)
  show ?thesis
    using source_url_is_stripped_url [OF a] b by (auto simp add: page_def)
qed

text \<open>
  C2 as it is written fails: the primary strategy fails, the fallback's text wins, and
  the fallback HTML has an image with the source \<open>/logo.png\<close> before one with an
  \<open>http\<close> source. The handler looks at the first image that has a source, finds that
  it does not begin with \<open>http\<close> and adopts none; the claim's rule would adopt the second.
\<close>

theorem first_http_image_counterexample:
  "map_option res_top_image (body_of (fetch_article page (fallback_only two_images))) = Some [] \<and>
   map_option res_text (body_of (fetch_article page (fallback_only two_images))) = Some ''Body text'' \<and>
   spec_first_http_src two_images = ''http://example.org/pic.png''"
  by (simp add: article_run page_def fallback_only_def two_images_def readable_of_def
      spec_first_http_src_def)

text \<open>
  C2, amended. When the fallback's text wins and the primary strategy set no lead image,
  the \<open>top_image\<close> of the result is the source of the first image element of the
  fallback HTML that has a source attribute, if that source begins with \<open>http\<close>;
  otherwise (no such element, or another beginning) it stays empty.
\<close>

theorem first_src_image_if_http:
  assumes url: "strip (or_empty (url_arg req)) = url" "url \<noteq> []"
    and prim: "after_primary url w = Inr s" "length (v_text s) < 100" "v_top_image s = []"
    and fb: "fallback_run w url = Inr r" "length (v_text s) < length (strip (r_get_text r))"
  shows "map_option res_top_image (body_of (fetch_article req w)) =
           Some (case img_sources (r_imgs r) of
                   [] \<Rightarrow> []
                 | src # rest \<Rightarrow> if prefix ''http'' src then src else [])"
proof -
  have a2: "v_top_image (snd (attempt2 url w s)) =
        (case img_sources (r_imgs r) of [] \<Rightarrow> []
         | src # rest \<Rightarrow> if prefix ''http'' src then src else [])"
    using prim fb
    by (simp add: attempt2_def Let_def find_img_src_sources split: list.splits)
  have "after_build url w = Inr (build_html (snd (attempt2 url w s)))"
    using after_fallback_cases [OF prim(1)] prim(2) by (simp add: after_build_def)
  then have "map_option res_top_image (body_of (fetch_article req w)) =
      Some (v_top_image (snd (attempt2 url w s)))"
    using fetch_article_ok [OF url] by (simp add: body_of_def build_html_top_image)
  then show ?thesis
    using a2 by simp
qed

theorem first_src_image_if_http_witness:
  "map_option res_top_image
     (body_of (fetch_article page (fallback_only [None, Some ''http://example.org/pic.png'']))) =
   Some ''http://example.org/pic.png''"
proof -
  let ?w = "fallback_only [None, Some ''http://example.org/pic.png'']"
  let ?u = "''http://example.org/a''"
  have p: "after_primary ?u ?w = Inr (initial\<lparr>v_ran := [Primary]\<rparr>)"
    by (simp add: after_primary_def except1_def attempt1_def fallback_only_def initial_def)
  have f: "fallback_run ?w ?u = Inr (readable_of ''Body text'' [None, Some ''http://example.org/pic.png''])"
    by (simp add: fallback_only_def)
  have l: "length (v_text (initial\<lparr>v_ran := [Primary]\<rparr>))
             < length (strip (r_get_text (readable_of ''Body text'' [None, Some ''http://example.org/pic.png''])))"
    by (simp add: initial_def readable_of_def strip_def py_isspace_def)
  show ?thesis
    using first_src_image_if_http [OF page_url _ p _ _ f l]
    by (simp add: initial_def readable_of_def)
qed

text \<open>
  C3. The fallback strategy runs if and only if the primary strategy's text is shorter
  than 100 characters. Where the fallback returns a text that differs from the primary's,
  the result text equals the fallback's text if and only if the fallback ran and its
  text is strictly longer than the primary's. The result text is the fallback's whenever
  the fallback ran, returned and is strictly longer, and in every other case (a tie, a
  shorter text, a failure, no run) the primary's text is kept.
\<close>

theorem fallback_text_rule:
  assumes url: "strip (or_empty (url_arg req)) = url" "url \<noteq> []"
    and prim: "after_primary url w = Inr s"
  shows "(\<exists>s'. after_fallback url w = Inr s' \<and>
              (Fallback \<in> set (v_ran s') \<longleftrightarrow> length (v_text s) < 100)) \<and>
         (\<forall>r. fallback_run w url = Inr r \<and> strip (r_get_text r) \<noteq> v_text s \<longrightarrow>
              (map_option res_text (body_of (fetch_article req w)) = Some (strip (r_get_text r)) \<longleftrightarrow>
               length (v_text s) < 100 \<and> length (v_text s) < length (strip (r_get_text r)))) \<and>
         (\<forall>r. length (v_text s) < 100 \<and> fallback_run w url = Inr r \<and>
              length (v_text s) < length (strip (r_get_text r)) \<longrightarrow>
              map_option res_text (body_of (fetch_article req w)) = Some (strip (r_get_text r))) \<and>
         (\<not> (length (v_text s) < 100 \<and>
              (\<exists>r. fallback_run w url = Inr r \<and> length (v_text s) < length (strip (r_get_text r)))) \<longrightarrow>
              map_option res_text (body_of (fetch_article req w)) = Some (v_text s))"
proof -
  let ?s' = "if length (v_text s) < 100 then snd (attempt2 url w s) else s"
  let ?res = "map_option res_text (body_of (fetch_article req w))"
  have af: "after_fallback url w = Inr ?s'"
    by (rule after_fallback_cases [OF prim])
  have s: "s = snd (attempt1 url w initial)"
    using prim by (simp add: after_primary_Inr)
  have r1: "v_ran s = [Primary]"
    unfolding s by (simp add: attempt1_def initial_def Let_def split: sum.splits option.splits)
  have r2: "Fallback \<in> set (v_ran (snd (attempt2 url w s)))"
    by (simp add: attempt2_def Let_def split: sum.splits option.splits)
  have ran: "Fallback \<in> set (v_ran ?s') \<longleftrightarrow> length (v_text s) < 100"
    using r1 r2 by simp
  have res: "?res = Some (v_text ?s')"
    using fetch_article_ok [OF url after_build_fallback [OF af]]
    by (simp add: body_of_def build_html_text)
  have won: "v_text (snd (attempt2 url w s)) = strip (r_get_text r)"
    if "fallback_run w url = Inr r" "length (v_text s) < length (strip (r_get_text r))" for r
    using that by (simp add: attempt2_def Let_def split: option.splits)
  have kept: "v_text (snd (attempt2 url w s)) = v_text s"
    if "\<not> (\<exists>r. fallback_run w url = Inr r \<and> length (v_text s) < length (strip (r_get_text r)))"
    using that by (simp add: attempt2_def Let_def split: sum.splits)
  have c1: "\<exists>s'. after_fallback url w = Inr s' \<and>
              (Fallback \<in> set (v_ran s') \<longleftrightarrow> length (v_text s) < 100)"
    using af ran by blast
  have c3: "\<forall>r. length (v_text s) < 100 \<and> fallback_run w url = Inr r \<and>
              length (v_text s) < length (strip (r_get_text r)) \<longrightarrow>
              ?res = Some (strip (r_get_text r))"
    using res won by auto
  have c4: "\<not> (length (v_text s) < 100 \<and>
              (\<exists>r. fallback_run w url = Inr r \<and> length (v_text s) < length (strip (r_get_text r)))) \<longrightarrow>
              ?res = Some (v_text s)"
    using res kept by auto
  have c2: "\<forall>r. fallback_run w url = Inr r \<and> strip (r_get_text r) \<noteq> v_text s \<longrightarrow>
              (?res = Some (strip (r_get_text r)) \<longleftrightarrow>
               length (v_text s) < 100 \<and> length (v_text s) < length (strip (r_get_text r)))"
  proof (intro allI impI)
    fix r
    assume h: "fallback_run w url = Inr r \<and> strip (r_get_text r) \<noteq> v_text s"
    show "?res = Some (strip (r_get_text r)) \<longleftrightarrow>
               length (v_text s) < 100 \<and> length (v_text s) < length (strip (r_get_text r))"
    proof (cases "length (v_text s) < 100 \<and> length (v_text s) < length (strip (r_get_text r))")
      case True
      then show ?thesis using c3 h by blast
    next
      case False
      then have "\<not> (length (v_text s) < 100 \<and>
              (\<exists>r. fallback_run w url = Inr r \<and> length (v_text s) < length (strip (r_get_text r))))"
        using h by auto
      then have "?res = Some (v_text s)" using c4 by blast
      then show ?thesis using False h by auto
    qed
  qed
  show ?thesis using c1 c2 c3 c4 by blast
qed

theorem fallback_text_rule_witness:
  "map_option res_text (body_of (fetch_article page (fallback_only []))) = Some ''Body text'' \<and>
   map_option res_text (body_of (fetch_article page same_text)) = Some ''Hello'' \<and>
   map_option res_text (body_of (fetch_article page shorter_fallback)) \<noteq> Some ''Hi'' \<and>
   (\<exists>s'. after_fallback ''http://example.org/a'' (primary_only (replicate 100 (CHR ''x''))) = Inr s' \<and>
         Fallback \<notin> set (v_ran s'))"
proof -
  let ?u = "''http://example.org/a''"
  have p1: "after_primary ?u (fallback_only []) = Inr (initial\<lparr>v_ran := [Primary]\<rparr>)"
    by (simp add: after_primary_def except1_def attempt1_def fallback_only_def initial_def)
  have a: "map_option res_text (body_of (fetch_article page (fallback_only []))) = Some ''Body text''"
    using fallback_text_rule [OF page_url _ p1, THEN conjunct2, THEN conjunct1, rule_format,
        of "readable_of ''Body text'' []"]
    by (simp add: initial_def fallback_only_def readable_of_def strip_def py_isspace_def)
  have p2: "after_primary ?u same_text =
     Inr \<lparr> v_text = ''Hello'', v_html_content = [], v_title = ''Title'', v_authors = [''Ann''],
           v_publish_date = [], v_top_image = ''http://example.org/top.png'', v_ran = [Primary] \<rparr>"
    by (simp add: after_primary_def except1_def attempt1_def same_text_def initial_def
        article_of_def or_empty_def strip_def py_isspace_def)
  have b: "map_option res_text (body_of (fetch_article page same_text)) = Some ''Hello''"
    using fallback_text_rule [OF page_url _ p2, THEN conjunct2, THEN conjunct2, THEN conjunct2]
    by (simp add: same_text_def readable_of_def strip_def py_isspace_def)
  have p4: "after_primary ?u shorter_fallback =
     Inr \<lparr> v_text = ''Hello'', v_html_content = [], v_title = ''Title'', v_authors = [''Ann''],
           v_publish_date = [], v_top_image = ''http://example.org/top.png'', v_ran = [Primary] \<rparr>"
    by (simp add: after_primary_def except1_def attempt1_def shorter_fallback_def initial_def
        article_of_def or_empty_def strip_def py_isspace_def)
  have d: "map_option res_text (body_of (fetch_article page shorter_fallback)) \<noteq> Some ''Hi''"
    using fallback_text_rule [OF page_url _ p4, THEN conjunct2, THEN conjunct1, rule_format,
        of "readable_of ''Hi'' []"]
    by (simp add: shorter_fallback_def readable_of_def strip_def py_isspace_def)
  have p3: "after_primary ?u (primary_only (replicate 100 (CHR ''x''))) =
     Inr \<lparr> v_text = replicate 100 (CHR ''x''), v_html_content = [], v_title = ''Title'',
           v_authors = [''Ann''], v_publish_date = [],
           v_top_image = ''http://example.org/top.png'', v_ran = [Primary] \<rparr>"
    by (simp add: after_primary_def except1_def attempt1_def primary_only_def initial_def
        article_of_def or_empty_def strip_def py_isspace_def)
  have c: "\<exists>s'. after_fallback ?u (primary_only (replicate 100 (CHR ''x''))) = Inr s' \<and>
         Fallback \<notin> set (v_ran s')"
    using fallback_text_rule [OF page_url _ p3, THEN conjunct1] by simp
  show ?thesis using a b c d by blast
qed

text \<open>
  C4 as it is written fails in its second half: when \<^verbatim>\<open>isoformat()\<close> raises at line
  131, the exception is caught, but text, title and authors were assigned by lines 128
  to 130 and keep their values.
\<close>

theorem partial_state_counterexample:
  "fst (attempt1 ''http://example.org/a'' bad_date initial) = Some ValueError \<and>
   after_primary ''http://example.org/a'' bad_date =
     Inr \<lparr> v_text = ''Body'', v_html_content = [], v_title = ''Title'', v_authors = [''Ann''],
           v_publish_date = [], v_top_image = [], v_ran = [Primary] \<rparr> \<and>
   map_option res_text (body_of (fetch_article page bad_date)) = Some ''Body''"
  by (simp add: article_run page_def bad_date_def article_of_def py_split_def blank_line_def)

text \<open>
  C4, amended. Any exception raised inside the primary strategy is caught and never
  leaves the handler. After a failure of the download or the parse (lines 124 to 126)
  the intermediate state is entirely empty; after a failure of the publish date's
  conversion (line 131) the text, title and authors already assigned are kept, and the
  publish date and the top image are empty. The block fails in no other way.
\<close>

theorem primary_failure_caught:
  "fetch_article req w \<noteq> Unhandled e \<and>
   after_primary url w = Inr (snd (attempt1 url w initial)) \<and>
   (primary_run w url = Inl e1 \<longrightarrow>
      attempt1 url w initial = (Some e1, initial\<lparr>v_ran := [Primary]\<rparr>)) \<and>
   (primary_run w url = Inr a \<and> a_publish_date a = Some (Inl e2) \<longrightarrow>
      attempt1 url w initial =
        (Some e2, initial\<lparr>v_text := strip (or_empty (a_text a)), v_title := or_empty (a_title a),
                          v_authors := (case a_authors a of None \<Rightarrow> [] | Some xs \<Rightarrow> xs),
                          v_ran := [Primary]\<rparr>)) \<and>
   (fst (attempt1 url w initial) \<noteq> None \<longrightarrow>
      (\<exists>x. primary_run w url = Inl x) \<or>
      (\<exists>a x. primary_run w url = Inr a \<and> a_publish_date a = Some (Inl x)))"
proof -
  have u: "fetch_article req w \<noteq> Unhandled e"
    using after_build_total [of "strip (case url_arg req of None \<Rightarrow> [] | Some u \<Rightarrow> u)" w]
    by (auto simp add: fetch_article_def Let_def)
  have f1: "primary_run w url = Inl e1 \<longrightarrow>
      attempt1 url w initial = (Some e1, initial\<lparr>v_ran := [Primary]\<rparr>)"
    by (simp add: attempt1_def initial_def)
  have f2: "primary_run w url = Inr a \<and> a_publish_date a = Some (Inl e2) \<longrightarrow>
      attempt1 url w initial =
        (Some e2, initial\<lparr>v_text := strip (or_empty (a_text a)), v_title := or_empty (a_title a),
                          v_authors := (case a_authors a of None \<Rightarrow> [] | Some xs \<Rightarrow> xs),
                          v_ran := [Primary]\<rparr>)"
    by (simp add: attempt1_def initial_def)
  have f3: "fst (attempt1 url w initial) \<noteq> None \<longrightarrow>
      (\<exists>x. primary_run w url = Inl x) \<or>
      (\<exists>a x. primary_run w url = Inr a \<and> a_publish_date a = Some (Inl x))"
    by (auto simp add: attempt1_def Let_def split: sum.splits option.splits)
  show ?thesis using u after_primary_Inr f1 f2 f3 by blast
qed

theorem primary_failure_caught_witness:
  "attempt1 ''http://example.org/a'' both_fail initial =
     (Some RequestException, initial\<lparr>v_ran := [Primary]\<rparr>) \<and>
   attempt1 ''http://example.org/a'' bad_date initial =
     (Some ValueError, initial\<lparr>v_text := ''Body'', v_title := ''Title'', v_authors := [''Ann''],
                               v_ran := [Primary]\<rparr>) \<and>
   fetch_article page bad_date \<noteq> Unhandled ValueError"
proof -
  let ?u = "''http://example.org/a''"
  have a: "attempt1 ?u both_fail initial = (Some RequestException, initial\<lparr>v_ran := [Primary]\<rparr>)"
    using primary_failure_caught [of page both_fail ValueError ?u RequestException]
    by (simp add: both_fail_def)
  have b: "attempt1 ?u bad_date initial =
     (Some ValueError, initial\<lparr>v_text := ''Body'', v_title := ''Title'', v_authors := [''Ann''],
                               v_ran := [Primary]\<rparr>)"
    using primary_failure_caught [of page bad_date ValueError ?u _ "article_of ''Body'' (Some (Inl ValueError))" ValueError]
    by (simp add: bad_date_def article_of_def or_empty_def strip_def py_isspace_def)
  have c: "fetch_article page bad_date \<noteq> Unhandled ValueError"
    using primary_failure_caught [of page bad_date ValueError] by simp
  show ?thesis using a b c by blast
qed

text \<open>
  C8 as it is written fails: for the text \<open>a\<close>, three newlines, \<open>b\<close>, the second segment
  is a newline followed by \<open>b\<close>. The handler wraps the trimmed segment; wrapping the
  segment as it is keeps the newline.
\<close>

theorem paragraphs_are_trimmed_counterexample:
  "after_fallback ''http://example.org/a'' (primary_only three_newlines) =
     Inr \<lparr> v_text = three_newlines, v_html_content = [], v_title = ''Title'',
           v_authors = [''Ann''], v_publish_date = [],
           v_top_image = ''http://example.org/top.png'', v_ran = [Primary, Fallback] \<rparr> \<and>
   map_option res_html (body_of (fetch_article page (primary_only three_newlines))) =
     Some ''<p>a</p><p>b</p>'' \<and>
   spec_paragraph_html three_newlines = ''<p>a</p><p>'' @ [CHR 0x0A] @ ''b</p>''"
  by (simp add: article_run page_def primary_only_def article_of_def three_newlines_def py_split_def
      blank_line_def spec_paragraph_html_def)

text \<open>
  C8, amended. If after both strategies there is text but no HTML, the \<open>html\<close> of the
  result is built by splitting the text at blank lines, dropping the segments that are
  empty or only whitespace, trimming the whitespace at the two ends of each remaining
  segment, wrapping it in a paragraph tag and concatenating with no separator; if the
  text is empty, the \<open>html\<close> is empty.
\<close>

theorem html_from_trimmed_paragraphs:
  assumes url: "strip (or_empty (url_arg req)) = url" "url \<noteq> []"
    and fb: "after_fallback url w = Inr s"
  shows "(v_text s \<noteq> [] \<and> v_html_content s = [] \<longrightarrow>
            map_option res_html (body_of (fetch_article req w)) =
              Some (concat (map (\<lambda>p. ''<p>'' @ strip p @ ''</p>'')
                      (filter (\<lambda>p. \<not> list_all py_isspace p) (py_split (v_text s) blank_line))))) \<and>
         (v_text s = [] \<longrightarrow> map_option res_html (body_of (fetch_article req w)) = Some [])"
proof -
  have res: "map_option res_html (body_of (fetch_article req w)) = Some (v_html_content (build_html s))"
    using fetch_article_ok [OF url after_build_fallback [OF fb]] by (simp add: body_of_def)
  have sp: "(strip p \<noteq> []) = (\<not> list_all py_isspace p)" for p
    by (simp add: strip_Nil_iff list_all_iff)
  have built: "v_html_content (build_html s) =
      concat (map (\<lambda>p. ''<p>'' @ strip p @ ''</p>'')
        (filter (\<lambda>p. \<not> list_all py_isspace p) (py_split (v_text s) blank_line)))"
    if "v_text s \<noteq> []" "v_html_content s = []"
    using that by (simp add: build_html_def Let_def sp map_concat comp_def)
  have s: "s = (if length (v_text (snd (attempt1 url w initial))) < 100
          then snd (attempt2 url w (snd (attempt1 url w initial)))
          else snd (attempt1 url w initial))"
    using fb by (simp add: after_fallback_Inr)
  have empty: "v_html_content s = []" if "v_text s = []"
  proof (cases "length (v_text (snd (attempt1 url w initial))) < 100")
    case True
    then show ?thesis
      using s that attempt2_html [OF attempt1_html, of url w url w] by simp
  next
    case False
    then show ?thesis using s attempt1_html [of url w] by simp
  qed
  have none: "v_html_content (build_html s) = []" if "v_text s = []"
    using that empty by (simp add: build_html_def)
  show ?thesis using res built none by auto
qed

theorem html_from_trimmed_paragraphs_witness:
  "map_option res_html (body_of (fetch_article page (primary_only three_newlines))) =
     Some ''<p>a</p><p>b</p>'' \<and>
   map_option res_html (body_of (fetch_article page both_fail)) = Some []"
proof -
  let ?u = "''http://example.org/a''"
  have f1: "after_fallback ?u (primary_only three_newlines) =
     Inr \<lparr> v_text = three_newlines, v_html_content = [], v_title = ''Title'',
           v_authors = [''Ann''], v_publish_date = [],
           v_top_image = ''http://example.org/top.png'', v_ran = [Primary, Fallback] \<rparr>"
    by (simp add: after_fallback_def after_primary_def except1_def except2_def attempt1_def
        attempt2_def initial_def primary_only_def article_of_def three_newlines_def
        or_empty_def strip_def py_isspace_def)
  have a: "map_option res_html (body_of (fetch_article page (primary_only three_newlines))) =
     Some ''<p>a</p><p>b</p>''"
    using html_from_trimmed_paragraphs [OF page_url _ f1, THEN conjunct1]
    by (simp add: three_newlines_def py_split_def blank_line_def strip_def py_isspace_def)
  have f2: "after_fallback ?u both_fail = Inr (initial\<lparr>v_ran := [Primary, Fallback]\<rparr>)"
    by (simp add: after_fallback_def after_primary_def except1_def except2_def attempt1_def
        attempt2_def initial_def both_fail_def)
  have b: "map_option res_html (body_of (fetch_article page both_fail)) = Some []"
    using html_from_trimmed_paragraphs [OF page_url _ f2, THEN conjunct2]
    by (simp add: initial_def)
  show ?thesis using a b by blast
qed

end
